theory Spec2Isabelle
  imports Complex_Main "HOL-Library.Word"
begin

section \<open>JavaScript values used by the backup script\<close>

text \<open>
  The program is a Node.js script. Its strings are modelled as \<open>string\<close>, an optional
  configuration field (absent in the JSON file, hence \<open>undefined\<close>) as \<open>string option\<close>,
  and the non-negative integers it renders (dates, ports, exit codes, file sizes) as
  \<open>nat\<close>.
\<close>

definition digit_char :: "nat \<Rightarrow> char" where
  "digit_char d = ''0123456789'' ! d"

text \<open>Number-to-string conversion of a non-negative integer (decimal, no leading zeros).\<close>

function show_nat :: "nat \<Rightarrow> string" where
  "show_nat n = (if n < 10 then [digit_char n] else show_nat (n div 10) @ [digit_char (n mod 10)])"
  by pat_completeness auto
termination
  by (relation "measure id") auto

declare show_nat.simps [simp del]

text \<open>
  JavaScript's \<open>a << n\<close>: the left operand is taken as a 32-bit integer, the shift count
  modulo 32, and the result is read back as a signed 32-bit integer.
\<close>

definition js_shl :: "int \<Rightarrow> nat \<Rightarrow> int" where
  "js_shl a n = sint (push_bit (n mod 32) (word_of_int a :: 32 word))"

text \<open>
  \<open>Number.prototype.toFixed\<close>, for a number below \<open>10^21\<close> in absolute value: the
  integer \<open>n\<close> with \<open>n / 10^f\<close> closest to the number (the larger one at a tie), printed
  with \<open>f\<close> digits after the point. The number is a \<open>rat\<close>: the quotients the script
  formats are an integer divided by a power of two, which a double holds exactly.
\<close>

definition toFixed :: "rat \<Rightarrow> nat \<Rightarrow> string" where
  "toFixed x f =
     (let s = (if x < 0 then ''-'' else '''');
          a = \<bar>x\<bar>;
          n = nat \<lfloor>a * 10 ^ f + 1 / 2\<rfloor>;
          m = show_nat n
      in if f = 0 then s @ m
         else (let z = (if length m \<le> f then replicate (f + 1 - length m) (CHR ''0'') @ m else m);
                   k = length z
               in s @ take (k - f) z @ ''.'' @ drop (k - f) z))"

text \<open>Truthiness of an optional string: \<open>undefined\<close> and the empty string are falsy.\<close>

fun js_truthy :: "string option \<Rightarrow> bool" where
  "js_truthy None = False"
| "js_truthy (Some s) = (s \<noteq> [])"

text \<open>String conversion of an optional string, as in \<open>'' + x\<close>.\<close>

fun js_string :: "string option \<Rightarrow> string" where
  "js_string None = ''undefined''"
| "js_string (Some s) = s"

text \<open>\<open>String.prototype.split\<close> with a one-character separator.\<close>

fun split_on :: "char \<Rightarrow> string \<Rightarrow> string list" where
  "split_on c [] = [[]]"
| "split_on c (x # xs) =
     (if x = c then [] # split_on c xs
      else (case split_on c xs of
              [] \<Rightarrow> [[x]]
            | y # ys \<Rightarrow> (x # y) # ys))"

text \<open>\<open>Array.prototype.join\<close> on an array of strings.\<close>

fun join_with :: "string \<Rightarrow> string list \<Rightarrow> string" where
  "join_with sep [] = []"
| "join_with sep [x] = x"
| "join_with sep (x # y # ys) = x @ sep @ join_with sep (y # ys)"

text \<open>Reading an array element: out of range is \<open>undefined\<close>.\<close>

definition js_index :: "string list \<Rightarrow> nat \<Rightarrow> string option" where
  "js_index xs i = (if i < length xs then Some (xs ! i) else None)"

definition is_space :: "char \<Rightarrow> bool" where
  "is_space c = (c \<in> set [CHR '' '', CHR 0x09, CHR 0x0A, CHR 0x0B, CHR 0x0C, CHR 0x0D])"

text \<open>\<open>String.prototype.trim\<close> on ASCII text.\<close>

definition trim :: "string \<Rightarrow> string" where
  "trim s = rev (dropWhile is_space (rev (dropWhile is_space s)))"

subsection \<open>path.join\<close>

text \<open>
  Node's POSIX \<open>path.join\<close>: the non-empty arguments are joined with \<open>/\<close> and the result
  is normalised (empty and \<open>.\<close> segments dropped, \<open>..\<close> resolved, a trailing slash kept).
\<close>

fun normalizeArray :: "bool \<Rightarrow> string list \<Rightarrow> string list \<Rightarrow> string list" where
  "normalizeArray allowAboveRoot acc [] = rev acc"
| "normalizeArray allowAboveRoot acc (p # ps) =
     (if p = [] \<or> p = ''.'' then normalizeArray allowAboveRoot acc ps
      else if p = ''..'' then
        (case acc of
           [] \<Rightarrow> normalizeArray allowAboveRoot (if allowAboveRoot then [p] else []) ps
         | q # qs \<Rightarrow>
             if q \<noteq> ''..'' then normalizeArray allowAboveRoot qs ps
             else normalizeArray allowAboveRoot (if allowAboveRoot then p # acc else acc) ps)
      else normalizeArray allowAboveRoot (p # acc) ps)"

definition path_normalize :: "string \<Rightarrow> string" where
  "path_normalize path =
     (let isAbsolute = (path \<noteq> [] \<and> hd path = CHR ''/'');
          trailingSlash = (path \<noteq> [] \<and> last path = CHR ''/'');
          p = join_with ''/'' (normalizeArray (\<not> isAbsolute) [] (split_on (CHR ''/'') path));
          p1 = (if p = [] \<and> \<not> isAbsolute then ''.'' else p);
          p2 = (if p1 \<noteq> [] \<and> trailingSlash then p1 @ ''/'' else p1)
      in (if isAbsolute then ''/'' else '''') @ p2)"

definition path_join :: "string list \<Rightarrow> string" where
  "path_join paths = path_normalize (join_with ''/'' (filter (\<lambda>p. p \<noteq> []) paths))"

section \<open>Naming and size helpers\<close>

text \<open>
  The clock reading \<open>new Date()\<close> that \<open>getArchiveName\<close> takes: the values of
  \<open>getFullYear()\<close>, \<open>getMonth()\<close> (0-based), \<open>getDate()\<close> and \<open>getTime()\<close>
  (milliseconds since the epoch).
\<close>

record js_date =
  getFullYear :: nat
  getMonth :: nat
  getDate :: nat
  getTime :: nat

definition getArchiveName :: "string \<Rightarrow> js_date \<Rightarrow> string" where
  "getArchiveName databaseName date =
     (let datestring = [
            databaseName,
            show_nat (getFullYear date),
            show_nat (getMonth date + 1),
            show_nat (getDate date),
            show_nat (getTime date)
          ]
      in join_with ''_'' datestring @ ''.tar.gz'')"

text \<open>
  \<open>friendlyFilesize\<close> is called with the size \<open>fs.stat\<close> reports or with 0, so its
  argument is a \<open>nat\<close>. The thresholds are the script's shift expressions.
\<close>

definition friendlyFilesize :: "nat \<Rightarrow> string" where
  "friendlyFilesize bytes =
     (let precision = 1 in
      if bytes = 0 then ''0 B''
      else if int bytes < js_shl 1 10 then show_nat bytes @ '' B''
      else if int bytes < js_shl 1 20 then
        toFixed (of_nat bytes / of_int (js_shl 1 10)) precision @ '' KiB''
      else if int bytes < js_shl 1 30 then
        toFixed (of_nat bytes / of_int (js_shl 1 20)) precision @ '' MiB''
      else if int bytes < js_shl 1 40 then
        toFixed (of_nat bytes / of_int (js_shl 1 30)) precision @ '' GiB''
      else toFixed (of_nat bytes / of_int (js_shl 1 40)) precision @ '' TiB'')"

section \<open>The world the pipeline runs in\<close>

text \<open>
  Errors handed to callbacks are JavaScript \<open>Error\<close> objects; only the message matters.
\<close>

datatype error = Error string

fun error_string :: "error \<Rightarrow> string" where
  "error_string (Error m) = ''Error: '' @ m"

datatype level = Info | Warn | Err

text \<open>The calls the script makes to the outside, in the order they are made.\<close>

datatype call =
    FsExists string
  | FsStat string
  | Exec string
  | Spawn string "string list" "string option"
  | PutFile string string

text \<open>
  An operation the script starts and then waits for through a callback or a listener
  either answers with a value, or never does: a child process that cannot be started or
  never ends emits no \<open>exit\<close> event, a shell command that never ends makes no callback.
\<close>

datatype 'a reply = Reply 'a | NoReply

text \<open>
  What a child process writes while it runs, and the outcome of an upload: an error
  before any response, a response with its status and body chunks that ends, a response
  that never ends, or no call of the upload's callback at all.
\<close>

datatype proc_event = Stdout string | Stderr string

datatype put_outcome =
    TransportError error
  | Response nat "string list"
  | ResponseNoEnd nat "string list"
  | NoResponse

text \<open>The storage client \<open>knox.createClient\<close> returns, for a key, a secret and a bucket.\<close>

datatype knox_client = KnoxClient string string string

text \<open>
  The state threaded through a run: the file system (of any type \<open>'fs\<close>), the trace of
  outside calls and the lines written through the logger.
\<close>

record 'fs world =
  fs :: 'fs
  calls :: "call list"
  logged :: "(level \<times> string) list"

text \<open>
  The external collaborators, as parameters of the model: \<open>fs.exists\<close>, \<open>fs.stat\<close>
  (the size, or \<open>None\<close> when stat fails), \<open>child_process.exec\<close> (a shell command line;
  the error it hands to its callback, if it ever calls it, and the file system it leaves),
  \<open>child_process.spawn\<close> (program, argument vector, working directory; the output
  events, the code of the \<open>exit\<close> event, \<open>None\<close> for \<open>null\<close>, if that event is ever
  emitted, and the file system it leaves) and the storage client's \<open>putFile\<close> (the
  client, the local file and the destination; the outcome).
\<close>

record 'fs tools =
  fs_exists :: "'fs \<Rightarrow> string \<Rightarrow> bool"
  fs_stat :: "'fs \<Rightarrow> string \<Rightarrow> nat option"
  exec :: "string \<Rightarrow> 'fs \<Rightarrow> error option reply \<times> 'fs"
  spawn :: "string \<Rightarrow> string list \<Rightarrow> string option \<Rightarrow> 'fs \<Rightarrow> proc_event list \<times> nat option reply \<times> 'fs"
  putFile :: "knox_client \<Rightarrow> string \<Rightarrow> string \<Rightarrow> 'fs \<Rightarrow> put_outcome"

definition winston :: "level \<Rightarrow> string \<Rightarrow> 'fs world \<Rightarrow> 'fs world" where
  "winston l msg w = w\<lparr>logged := logged w @ [(l, msg)]\<rparr>"

definition called :: "call \<Rightarrow> 'fs world \<Rightarrow> 'fs world" where
  "called c w = w\<lparr>calls := calls w @ [c]\<rparr>"

fun show_code :: "nat option \<Rightarrow> string" where
  "show_code None = ''null''"
| "show_code (Some c) = show_nat c"

section \<open>The pipeline steps\<close>

text \<open>
  Every step takes the world and returns what becomes of its callback, with the world it
  leaves: \<open>Reply None\<close> for \<open>callback(null)\<close>, \<open>Reply (Some e)\<close> for \<open>callback(e)\<close>,
  and \<open>NoReply\<close> when the step never calls it.
\<close>

definition removeRF :: "'fs tools \<Rightarrow> string \<Rightarrow> 'fs world \<Rightarrow> error option reply \<times> 'fs world" where
  "removeRF T target w =
     (let w1 = called (FsExists target) w in
      if \<not> fs_exists T (fs w1) target then (Reply None, w1)
      else
        (let w2 = winston Warn (''Removing '' @ target) w1;
             w3 = called (Exec (''rm -rf '' @ target)) w2;
             (answer, fs') = exec T (''rm -rf '' @ target) (fs w3)
         in (answer, w3\<lparr>fs := fs'\<rparr>)))"

record mongodb_options =
  host :: string
  port :: nat
  db :: string
  username :: "string option"
  password :: "string option"

definition mongoOptions :: "mongodb_options \<Rightarrow> string \<Rightarrow> string list" where
  "mongoOptions options directory =
     (let mongoOptions = [
            ''-h'', host options @ '':'' @ show_nat (port options),
            ''-d'', db options,
            ''-o'', directory
          ]
      in if js_truthy (username options) \<and> js_truthy (password options) then
           (((mongoOptions @ [''-u'']) @ [js_string (username options)]) @ [''-p''])
             @ [js_string (password options)]
         else mongoOptions)"

fun log_dump_event :: "proc_event \<Rightarrow> 'fs world \<Rightarrow> 'fs world" where
  "log_dump_event (Stdout d) w = winston Info (trim d) w"
| "log_dump_event (Stderr d) w = winston Err (trim d) w"

definition mongoDump ::
  "'fs tools \<Rightarrow> mongodb_options \<Rightarrow> string \<Rightarrow> 'fs world \<Rightarrow> error option reply \<times> 'fs world" where
  "mongoDump T options directory w =
     (let w1 = winston Info (''Starting mongodump of '' @ db options) w;
          w2 = called (Spawn ''mongodump'' (mongoOptions options directory) None) w1;
          (events, ended, fs') = spawn T ''mongodump'' (mongoOptions options directory) None (fs w2);
          w3 = fold log_dump_event events (w2\<lparr>fs := fs'\<rparr>)
      in case ended of
           NoReply \<Rightarrow> (NoReply, w3)
         | Reply code \<Rightarrow>
             if code = Some 0 then (Reply None, winston Info ''mongodump executed successfully'' w3)
             else (Reply (Some (Error (''Mongodump exited with code '' @ show_code code))), w3))"

fun log_tar_event :: "proc_event \<Rightarrow> 'fs world \<Rightarrow> 'fs world" where
  "log_tar_event (Stdout d) w = w"
| "log_tar_event (Stderr d) w = winston Err d w"

definition compressDirectory ::
  "'fs tools \<Rightarrow> string \<Rightarrow> string \<Rightarrow> string \<Rightarrow> 'fs world \<Rightarrow> error option reply \<times> 'fs world" where
  "compressDirectory T directory input output w =
     (let tarOptions = [''-zcf'', output, input];
          w1 = winston Info (''Starting compression of '' @ input @ '' into '' @ output) w;
          w2 = called (Spawn ''tar'' tarOptions (Some directory)) w1;
          (events, ended, fs') = spawn T ''tar'' tarOptions (Some directory) (fs w2);
          w3 = fold log_tar_event events (w2\<lparr>fs := fs'\<rparr>)
      in case ended of
           NoReply \<Rightarrow> (NoReply, w3)
         | Reply code \<Rightarrow>
             if code = Some 0 then
               (let w4 = called (FsStat (path_join [directory, output])) w3;
                    size = (case fs_stat T (fs w4) (path_join [directory, output]) of
                              Some sz \<Rightarrow> sz
                            | None \<Rightarrow> 0)
                in (Reply None,
                    winston Info (''Successfully compressed directory ('' @ friendlyFilesize size @ '')'') w4))
             else (Reply (Some (Error (''Tar exited with code '' @ show_code code))), w3))"

record s3_options =
  key :: string
  secret :: string
  bucket :: string
  destination :: "string option"

definition sendToS3 ::
  "'fs tools \<Rightarrow> s3_options \<Rightarrow> string \<Rightarrow> string \<Rightarrow> 'fs world \<Rightarrow> error option reply \<times> 'fs world" where
  "sendToS3 T options directory target w =
     (let sourceFile = path_join [directory, target];
          s3client = KnoxClient (key options) (secret options) (bucket options);
          destination = (if js_truthy (destination options) then js_string (destination options) else ''/'');
          w1 = winston Info (''Attemping to upload '' @ target @ '' to the '' @ bucket options @ '' s3 bucket'') w;
          w2 = called (PutFile sourceFile (path_join [destination, target])) w1
      in case putFile T s3client sourceFile (path_join [destination, target]) (fs w2) of
           NoResponse \<Rightarrow> (NoReply, w2)
         | TransportError err \<Rightarrow> (Reply (Some err), w2)
         | ResponseNoEnd statusCode chunks \<Rightarrow>
             (NoReply, fold (\<lambda>chunk. winston (if statusCode \<noteq> 200 then Err else Info) chunk) chunks w2)
         | Response statusCode chunks \<Rightarrow>
             (let w3 = fold (\<lambda>chunk. winston (if statusCode \<noteq> 200 then Err else Info) chunk) chunks w2
              in if statusCode \<noteq> 200 then
                   (Reply (Some (Error (''Expected a 200 response from S3, got '' @ show_nat statusCode))), w3)
                 else (Reply None, winston Info ''Successfully uploaded to s3'' w3)))"

section \<open>The orchestrator\<close>

text \<open>
  \<open>async.series\<close>: the tasks run one after the other, each started by the callback of
  the one before; the first error ends the series and is handed to its final handler,
  otherwise \<open>null\<close> is after the last task. A task that never calls back leaves the
  series where it is: no later task starts and the final handler is never called.
\<close>

fun series :: "('w \<Rightarrow> error option reply \<times> 'w) list \<Rightarrow> 'w \<Rightarrow> error option reply \<times> 'w" where
  "series [] w = (Reply None, w)"
| "series (t # ts) w =
     (case t w of
        (Reply (Some err), w') \<Rightarrow> (Reply (Some err), w')
      | (Reply None, w') \<Rightarrow> series ts w'
      | (NoReply, w') \<Rightarrow> (NoReply, w'))"

text \<open>What a run reads from the process: \<open>os.tmpDir()\<close> and the clock.\<close>

record run_env =
  os_tmpDir :: string
  now :: js_date

definition sync_tmpDir :: "run_env \<Rightarrow> string" where
  "sync_tmpDir env = path_join [os_tmpDir env, ''mongodb_s3_backup'']"

definition sync_backupDir :: "mongodb_options \<Rightarrow> run_env \<Rightarrow> string" where
  "sync_backupDir mongodbConfig env = path_join [sync_tmpDir env, db mongodbConfig]"

definition sync_archiveName :: "mongodb_options \<Rightarrow> run_env \<Rightarrow> string" where
  "sync_archiveName mongodbConfig env = getArchiveName (db mongodbConfig) (now env)"

definition sync_archivePath :: "mongodb_options \<Rightarrow> run_env \<Rightarrow> string" where
  "sync_archivePath mongodbConfig env = path_join [sync_tmpDir env, sync_archiveName mongodbConfig env]"

text \<open>The array of tasks \<open>sync\<close> hands to \<open>async.series\<close>.\<close>

definition sync_tasks ::
  "'fs tools \<Rightarrow> mongodb_options \<Rightarrow> s3_options \<Rightarrow> run_env
     \<Rightarrow> ('fs world \<Rightarrow> error option reply \<times> 'fs world) list" where
  "sync_tasks T mongodbConfig s3Config env = [
     removeRF T (sync_backupDir mongodbConfig env),
     removeRF T (sync_archivePath mongodbConfig env),
     mongoDump T mongodbConfig (sync_tmpDir env),
     compressDirectory T (sync_tmpDir env) (db mongodbConfig) (sync_archiveName mongodbConfig env),
     sendToS3 T s3Config (sync_tmpDir env) (sync_archiveName mongodbConfig env),
     removeRF T (sync_backupDir mongodbConfig env),
     removeRF T (sync_archivePath mongodbConfig env)
   ]"

text \<open>The final handler of the series: one log line, then the caller's callback with \<open>err\<close>.\<close>

definition sync_done ::
  "mongodb_options \<Rightarrow> error option \<Rightarrow> 'fs world \<Rightarrow> error option reply \<times> 'fs world" where
  "sync_done mongodbConfig err w =
     (case err of
        Some e \<Rightarrow> (Reply err, winston Err (''Failed during sync: '' @ error_string e) w)
      | None \<Rightarrow> (Reply err, winston Info (''Successfully backed up '' @ db mongodbConfig) w))"

text \<open>
  What follows the series: its final handler when the series ends, nothing when a task
  never called back.
\<close>

definition sync_finish ::
  "mongodb_options \<Rightarrow> error option reply \<Rightarrow> 'fs world \<Rightarrow> error option reply \<times> 'fs world" where
  "sync_finish mongodbConfig answer w =
     (case answer of
        Reply err \<Rightarrow> sync_done mongodbConfig err w
      | NoReply \<Rightarrow> (NoReply, w))"

text \<open>
  \<open>sync\<close>: the first component of the pair it returns is what becomes of the caller's
  callback, \<open>Reply err\<close> for the call \<open>callback(err)\<close> and \<open>NoReply\<close> when it is never
  called; the second is the world at that moment.
\<close>

definition sync ::
  "'fs tools \<Rightarrow> mongodb_options \<Rightarrow> s3_options \<Rightarrow> run_env \<Rightarrow> 'fs world \<Rightarrow> error option reply \<times> 'fs world" where
  "sync T mongodbConfig s3Config env w =
     (let (answer, w') = series (sync_tasks T mongodbConfig s3Config env) w
      in sync_finish mongodbConfig answer w')"

text \<open>The calls of the caller's callback that a run makes, with their argument.\<close>

fun terminal_callbacks :: "error option reply \<Rightarrow> error option list" where
  "terminal_callbacks (Reply err) = [err]"
| "terminal_callbacks NoReply = []"

section \<open>The scheduler's cron expression\<close>

text \<open>
  The \<open>cron\<close> section of the configuration file; a field left out is \<open>None\<close>. The whole
  section may be left out as well.
\<close>

record cron_config =
  crontab :: "string option"
  time :: "string option"
  timezone :: "string option"

text \<open>
  \<open>util.format('%d %d * * *', a, b)\<close>. The conversion \<open>%d\<close> applies \<open>Number\<close> to its
  argument and prints the result; it is the parameter \<open>fmt\<close>.
\<close>

definition util_format_cron :: "(string option \<Rightarrow> string) \<Rightarrow> string option \<Rightarrow> string option \<Rightarrow> string" where
  "util_format_cron fmt a b = fmt a @ '' '' @ fmt b @ '' * * *''"

text \<open>The expression the script hands to \<open>CronJob\<close> when it is not run with \<open>--now\<close>.\<close>

definition resolve_crontab :: "(string option \<Rightarrow> string) \<Rightarrow> cron_config option \<Rightarrow> string" where
  "resolve_crontab fmt cron =
     (let crontab0 = ''0 0 * * *'' in
      case cron of
        None \<Rightarrow> crontab0
      | Some c \<Rightarrow>
          if js_truthy (crontab c) then js_string (crontab c)
          else if js_truthy (time c) then
            (let time = split_on (CHR '':'') (js_string (time c))
             in util_format_cron fmt (js_index time 0) (js_index time 1))
          else crontab0)"

text \<open>
  \<open>Number\<close> followed by number-to-string on the strings a time of day is written with:
  \<open>undefined\<close> (NaN), the empty string (0) and decimal digits that denote a number below
  \<open>2^53\<close> (leading zeros vanish). This is the whole domain of the definition as a model
  of \<open>%d\<close>: it says nothing about longer digit strings, which \<open>Number\<close> rounds to a
  double, nor about signs, fractions, exponents, other radices or blanks, and no
  statement below uses it there.
\<close>

definition digits_value :: "string \<Rightarrow> nat" where
  "digits_value s = foldl (\<lambda>acc c. 10 * acc + ((of_char c :: nat) - 48)) 0 s"

definition format_d :: "string option \<Rightarrow> string" where
  "format_d x =
     (case x of
        None \<Rightarrow> ''NaN''
      | Some s \<Rightarrow>
          if list_all (\<lambda>c. 48 \<le> (of_char c :: nat) \<and> (of_char c :: nat) \<le> 57) s then show_nat (digits_value s)
          else ''NaN'')"

text \<open>
  A five-field cron expression reads \<open>minute hour day-of-month month day-of-week\<close>.
\<close>

definition cron_fields :: "string \<Rightarrow> string list" where
  "cron_fields e = filter (\<lambda>f. f \<noteq> []) (split_on (CHR '' '') e)"

definition cron_minute :: "string \<Rightarrow> string option" where
  "cron_minute e = js_index (cron_fields e) 0"

definition cron_hour :: "string \<Rightarrow> string option" where
  "cron_hour e = js_index (cron_fields e) 1"

section \<open>Observations on a trace of calls\<close>

text \<open>
  Every run of \<open>removeRF\<close> asks \<open>fs.exists\<close> exactly once and no other step asks it,
  so the number of such calls is the number of removal steps that ran. The dump, the
  compression and the upload are the \<open>spawn\<close> and \<open>putFile\<close> calls.
\<close>

fun is_removal :: "call \<Rightarrow> bool" where
  "is_removal (FsExists p) = True"
| "is_removal c = False"

definition removals :: "call list \<Rightarrow> nat" where
  "removals cs = length (filter is_removal cs)"

fun is_invocation :: "call \<Rightarrow> bool" where
  "is_invocation (Spawn prog args cwd) = True"
| "is_invocation (PutFile src dst) = True"
| "is_invocation c = False"

definition invocations :: "call list \<Rightarrow> call list" where
  "invocations cs = filter is_invocation cs"

section \<open>A simulated machine\<close>

text \<open>
  Concrete collaborators to run the model on: a file system that is a list of paths
  with their sizes, a shell that splits an unquoted command line at blanks and knows
  \<open>rm -rf\<close>, a \<open>mongodump\<close> that writes the database's directory under the output
  directory, a \<open>tar\<close> that writes the archive, and an upload with a given outcome.
\<close>

type_synonym sim_fs = "(string \<times> nat) list"

definition sim_exists :: "sim_fs \<Rightarrow> string \<Rightarrow> bool" where
  "sim_exists files p = (map_of files p \<noteq> None)"

definition sim_stat :: "sim_fs \<Rightarrow> string \<Rightarrow> nat option" where
  "sim_stat files p = map_of files p"

text \<open>
  Field splitting of \<open>/bin/sh\<close> on a command line without quotes or metacharacters:
  the words are the maximal runs of non-blank characters.
\<close>

definition sh_fields :: "string \<Rightarrow> string list" where
  "sh_fields cmd = filter (\<lambda>f. f \<noteq> []) (split_on (CHR '' '') cmd)"

definition under :: "string \<Rightarrow> string \<Rightarrow> bool" where
  "under target p = (p = target \<or> take (length target + 1) p = target @ ''/'')"

definition sim_exec :: "string \<Rightarrow> sim_fs \<Rightarrow> error option reply \<times> sim_fs" where
  "sim_exec cmd files =
     (case sh_fields cmd of
        prog # flag # targets \<Rightarrow>
          if prog = ''rm'' \<and> flag = ''-rf'' then
            (Reply None, filter (\<lambda>(p, sz). \<not> list_ex (\<lambda>t. under t p) targets) files)
          else (Reply (Some (Error (''Command failed: '' @ cmd))), files)
      | _ \<Rightarrow> (Reply (Some (Error (''Command failed: '' @ cmd))), files))"

definition sim_spawn ::
  "string \<Rightarrow> string list \<Rightarrow> string option \<Rightarrow> sim_fs \<Rightarrow> proc_event list \<times> nat option reply \<times> sim_fs" where
  "sim_spawn prog args cwd files =
     (if prog = ''mongodump'' then
        (case args of
           h # hp # d # name # out # dir # rest \<Rightarrow>
             ([Stdout ''done dumping''], Reply (Some 0),
              files @ [(path_join [dir, name], 4096), (path_join [dir, name, name @ ''.bson''], 2048)])
         | _ \<Rightarrow> ([Stderr ''bad arguments''], Reply (Some 1), files))
      else if prog = ''tar'' then
        (case (args, cwd) of
           ([flag, out, inp], Some dir) \<Rightarrow> ([], Reply (Some 0), files @ [(path_join [dir, out], 1536)])
         | _ \<Rightarrow> ([Stderr ''bad arguments''], Reply (Some 2), files))
      else ([], Reply (Some 127), files))"

definition sim_putFile ::
  "put_outcome \<Rightarrow> knox_client \<Rightarrow> string \<Rightarrow> string \<Rightarrow> sim_fs \<Rightarrow> put_outcome" where
  "sim_putFile outcome client src dst files =
     (if sim_exists files src then outcome else TransportError (Error (''ENOENT, open '' @ src)))"

definition sim_tools :: "put_outcome \<Rightarrow> sim_fs tools" where
  "sim_tools outcome = \<lparr>
     fs_exists = sim_exists,
     fs_stat = sim_stat,
     exec = sim_exec,
     spawn = sim_spawn,
     putFile = sim_putFile outcome
   \<rparr>"

text \<open>The same machine with a shell on which every command fails and changes nothing.\<close>

definition sim_tools_rm_fails :: "put_outcome \<Rightarrow> sim_fs tools" where
  "sim_tools_rm_fails outcome =
     (sim_tools outcome)\<lparr>exec := (\<lambda>cmd files. (Reply (Some (Error (''Command failed: '' @ cmd))), files))\<rparr>"

text \<open>
  The same machine with child processes that write nothing and end in a given way: an
  \<open>exit\<close> event with a code, or no \<open>exit\<close> event at all.
\<close>

definition sim_tools_exit :: "nat option reply \<Rightarrow> put_outcome \<Rightarrow> sim_fs tools" where
  "sim_tools_exit ended outcome =
     (sim_tools outcome)\<lparr>spawn := (\<lambda>prog args cwd files. ([], ended, files))\<rparr>"

definition demo_mongodb :: mongodb_options where
  "demo_mongodb = \<lparr>host = ''localhost'', port = 27017, db = ''test'', username = None, password = None\<rparr>"

definition demo_s3 :: s3_options where
  "demo_s3 = \<lparr>key = ''AKIA'', secret = ''s3cr3t'', bucket = ''backups'', destination = None\<rparr>"

text \<open>Two clock readings on 3 November 2026, one minute apart.\<close>

definition demo_env1 :: run_env where
  "demo_env1 = \<lparr>os_tmpDir = ''/tmp'',
     now = \<lparr>getFullYear = 2026, getMonth = 10, getDate = 3, getTime = 1793700000000\<rparr>\<rparr>"

definition demo_env2 :: run_env where
  "demo_env2 = \<lparr>os_tmpDir = ''/tmp'',
     now = \<lparr>getFullYear = 2026, getMonth = 10, getDate = 3, getTime = 1793700060000\<rparr>\<rparr>"

definition empty_world :: "sim_fs world" where
  "empty_world = \<lparr>fs = [], calls = [], logged = []\<rparr>"

section \<open>Facts used to evaluate the helpers\<close>

lemma floor_rat_numeral: "\<lfloor>numeral a / numeral b :: rat\<rfloor> = numeral a div numeral b"
  using floor_divide_of_int_eq [of "numeral a" "numeral b", where ?'a = rat] by simp

lemmas js_eval =
  show_nat.simps digit_char_def js_shl_def toFixed_def Let_def floor_rat_numeral

lemmas path_eval = path_join_def path_normalize_def

lemmas cron_eval =
  resolve_crontab_def util_format_cron_def js_index_def format_d_def digits_value_def
  cron_fields_def cron_minute_def cron_hour_def

section \<open>The size formatter\<close>

lemma js_shl_thresholds:
  "js_shl 1 10 = 1024" "js_shl 1 20 = 1048576" "js_shl 1 30 = 1073741824" "js_shl 1 40 = 256"
  by (simp_all add: js_shl_def)

text \<open>What the formatter computes on every size, with the thresholds evaluated.\<close>

lemma friendlyFilesize_cases:
  "friendlyFilesize bytes =
     (if bytes = 0 then ''0 B''
      else if bytes < 1024 then show_nat bytes @ '' B''
      else if bytes < 1048576 then toFixed (of_nat bytes / 1024) 1 @ '' KiB''
      else if bytes < 1073741824 then toFixed (of_nat bytes / 1048576) 1 @ '' MiB''
      else toFixed (of_nat bytes / 256) 1 @ '' TiB'')"
  by (simp add: friendlyFilesize_def js_shl_thresholds)

lemma friendlyFilesize_zero: "friendlyFilesize 0 = ''0 B''"
  by (simp add: friendlyFilesize_def)

lemma friendlyFilesize_1023: "friendlyFilesize 1023 = ''1023 B''"
  by (simp add: friendlyFilesize_def js_eval)

lemma friendlyFilesize_1536: "friendlyFilesize 1536 = ''1.5 KiB''"
  by (simp add: friendlyFilesize_def js_eval)

lemma friendlyFilesize_MiB: "friendlyFilesize 1048576 = ''1.0 MiB''"
  by (simp add: friendlyFilesize_def js_eval)

text \<open>
  C4. The claim places the unit boundaries at \<open>2^10\<close>, \<open>2^20\<close>, \<open>2^30\<close> and \<open>2^40\<close>.
  In the script the last threshold is written \<open>1<<40\<close>, which JavaScript evaluates to
  256 (the shift count is taken modulo 32), so the \<open>GiB\<close> branch is never taken and a size
  of \<open>2^30\<close> bytes is rendered as the size divided by 256 with the unit \<open>TiB\<close>.
\<close>

theorem friendlyFilesize_GiB_boundary:
  "js_shl 1 40 = 256 \<and> friendlyFilesize 1073741824 = ''4194304.0 TiB''"
  by (simp add: friendlyFilesize_def js_eval)

section \<open>The scheduler\<close>

text \<open>
  C5. The claim says that a daily time \<open>hour:minute\<close> puts the hour in the cron hour
  field and the minute in the cron minute field. The script formats the part before the
  colon first and the part after it second, and the first field of a cron expression is
  the minute: for the time \<open>14:30\<close> the expression is \<open>14 30 * * *\<close>, whose minute field
  is 14 and whose hour field is 30.
\<close>

theorem cron_time_fields_swapped:
  "resolve_crontab format_d (Some \<lparr>crontab = None, time = Some ''14:30'', timezone = None\<rparr>)
     = ''14 30 * * *''
   \<and> cron_minute ''14 30 * * *'' = Some ''14''
   \<and> cron_hour ''14 30 * * *'' = Some ''30''"
  by (simp add: cron_eval js_eval)

text \<open>
  C6. Precedence of the cron expression: a crontab string that is present (truthy, that
  is, not the empty string) is used as it is; otherwise a time that is present gives the
  expression made of its part before the first colon, its part after it, and \<open>* * *\<close>,
  each part printed by the \<open>%d\<close> conversion; otherwise, and when the whole \<open>cron\<close>
  section is missing, the built-in \<open>0 0 * * *\<close> is used. This holds whatever the \<open>%d\<close>
  conversion prints.
\<close>

theorem resolve_crontab_precedence:
  "(\<forall>c s. cron = Some c \<and> crontab c = Some s \<and> s \<noteq> [] \<longrightarrow> resolve_crontab fmt cron = s)
   \<and> (\<forall>c t. cron = Some c \<and> \<not> js_truthy (crontab c) \<and> time c = Some t \<and> t \<noteq> [] \<longrightarrow>
          resolve_crontab fmt cron =
            fmt (js_index (split_on (CHR '':'') t) 0) @ '' ''
              @ fmt (js_index (split_on (CHR '':'') t) 1) @ '' * * *'')
   \<and> ((cron = None \<or> (\<exists>c. cron = Some c \<and> \<not> js_truthy (crontab c) \<and> \<not> js_truthy (time c))) \<longrightarrow>
          resolve_crontab fmt cron = ''0 0 * * *'')"
  by (auto simp: resolve_crontab_def util_format_cron_def Let_def)

theorem resolve_crontab_precedence_witness:
  "resolve_crontab format_d (Some \<lparr>crontab = Some ''*/5 * * * *'', time = Some ''14:30'', timezone = None\<rparr>)
     = ''*/5 * * * *''
   \<and> resolve_crontab format_d (Some \<lparr>crontab = None, time = Some ''14:30'', timezone = None\<rparr>)
     = ''14 30 * * *''
   \<and> resolve_crontab format_d (Some \<lparr>crontab = Some [], time = Some ''6:05'', timezone = None\<rparr>)
     = ''6 5 * * *''
   \<and> resolve_crontab format_d (Some \<lparr>crontab = None, time = None, timezone = Some ''Europe/Paris''\<rparr>)
     = ''0 0 * * *''
   \<and> resolve_crontab format_d None = ''0 0 * * *''"
  using resolve_crontab_precedence [of "Some \<lparr>crontab = Some ''*/5 * * * *'', time = Some ''14:30'', timezone = None\<rparr>" format_d]
    resolve_crontab_precedence [of "Some \<lparr>crontab = None, time = Some ''14:30'', timezone = None\<rparr>" format_d]
    resolve_crontab_precedence [of "Some \<lparr>crontab = Some [], time = Some ''6:05'', timezone = None\<rparr>" format_d]
    resolve_crontab_precedence [of "Some \<lparr>crontab = None, time = None, timezone = Some ''Europe/Paris''\<rparr>" format_d]
    resolve_crontab_precedence [of None format_d]
  by (simp add: js_index_def format_d_def digits_value_def js_eval)

section \<open>What a step leaves behind\<close>

lemma winston_sel [simp]:
  "fs (winston l m w) = fs w"
  "calls (winston l m w) = calls w"
  "logged (winston l m w) = logged w @ [(l, m)]"
  by (simp_all add: winston_def)

lemma called_sel [simp]:
  "fs (called c w) = fs w"
  "calls (called c w) = calls w @ [c]"
  "logged (called c w) = logged w"
  by (simp_all add: called_def)

lemma log_dump_event_sel [simp]:
  "fs (log_dump_event ev w) = fs w"
  "calls (log_dump_event ev w) = calls w"
  by (cases ev; simp)+

lemma log_tar_event_sel [simp]:
  "fs (log_tar_event ev w) = fs w"
  "calls (log_tar_event ev w) = calls w"
  by (cases ev; simp)+

lemma fold_dump_sel [simp]:
  "fs (fold log_dump_event evs w) = fs w"
  "calls (fold log_dump_event evs w) = calls w"
  by (induction evs arbitrary: w; simp)+

lemma fold_tar_sel [simp]:
  "fs (fold log_tar_event evs w) = fs w"
  "calls (fold log_tar_event evs w) = calls w"
  by (induction evs arbitrary: w; simp)+

lemma fold_chunk_sel [simp]:
  "fs (fold (\<lambda>chunk. winston l chunk) chunks w) = fs w"
  "calls (fold (\<lambda>chunk. winston l chunk) chunks w) = calls w"
  by (induction chunks arbitrary: w; simp)+

lemma sync_done_sel [simp]:
  "fst (sync_done m err w) = Reply err"
  "fs (snd (sync_done m err w)) = fs w"
  "calls (snd (sync_done m err w)) = calls w"
  by (simp_all add: sync_done_def split: option.splits)

lemma sync_finish_sel [simp]:
  "fst (sync_finish m answer w) = answer"
  "fs (snd (sync_finish m answer w)) = fs w"
  "calls (snd (sync_finish m answer w)) = calls w"
  by (simp_all add: sync_finish_def split: reply.splits)

lemma removeRF_obs:
  "fst (removeRF T t w) =
     (let files = fs w in if fs_exists T files t then fst (exec T (''rm -rf '' @ t) files) else Reply None)"
  "fs (snd (removeRF T t w)) =
     (let files = fs w in if fs_exists T files t then snd (exec T (''rm -rf '' @ t) files) else files)"
  "calls (snd (removeRF T t w)) =
     calls w @ (if fs_exists T (fs w) t then [FsExists t, Exec (''rm -rf '' @ t)] else [FsExists t])"
  by (simp_all add: removeRF_def Let_def split: prod.splits)

lemma mongoDump_obs:
  "fst (mongoDump T options d w) =
     (case fst (snd (spawn T ''mongodump'' (mongoOptions options d) None (fs w))) of
        NoReply \<Rightarrow> NoReply
      | Reply code \<Rightarrow>
          if code = Some 0 then Reply None
          else Reply (Some (Error (''Mongodump exited with code '' @ show_code code))))"
  "fs (snd (mongoDump T options d w)) = snd (snd (spawn T ''mongodump'' (mongoOptions options d) None (fs w)))"
  "calls (snd (mongoDump T options d w)) = calls w @ [Spawn ''mongodump'' (mongoOptions options d) None]"
  by (simp_all add: mongoDump_def Let_def split: prod.splits reply.splits)

lemma compressDirectory_obs:
  "fst (compressDirectory T d inp out w) =
     (case fst (snd (spawn T ''tar'' [''-zcf'', out, inp] (Some d) (fs w))) of
        NoReply \<Rightarrow> NoReply
      | Reply code \<Rightarrow>
          if code = Some 0 then Reply None
          else Reply (Some (Error (''Tar exited with code '' @ show_code code))))"
  "fs (snd (compressDirectory T d inp out w)) = snd (snd (spawn T ''tar'' [''-zcf'', out, inp] (Some d) (fs w)))"
  "calls (snd (compressDirectory T d inp out w)) =
     calls w @ Spawn ''tar'' [''-zcf'', out, inp] (Some d)
       # (if fst (snd (spawn T ''tar'' [''-zcf'', out, inp] (Some d) (fs w))) = Reply (Some 0)
          then [FsStat (path_join [d, out])] else [])"
  by (simp_all add: compressDirectory_def Let_def split: prod.splits reply.splits)

lemma sendToS3_obs:
  "fst (sendToS3 T options d target w) =
     (case putFile T (KnoxClient (key options) (secret options) (bucket options)) (path_join [d, target])
             (path_join [if js_truthy (destination options) then js_string (destination options) else ''/'', target])
             (fs w) of
        NoResponse \<Rightarrow> NoReply
      | TransportError err \<Rightarrow> Reply (Some err)
      | ResponseNoEnd statusCode chunks \<Rightarrow> NoReply
      | Response statusCode chunks \<Rightarrow>
          if statusCode \<noteq> 200
          then Reply (Some (Error (''Expected a 200 response from S3, got '' @ show_nat statusCode)))
          else Reply None)"
  "fs (snd (sendToS3 T options d target w)) = fs w"
  "calls (snd (sendToS3 T options d target w)) =
     calls w @ [PutFile (path_join [d, target])
       (path_join [if js_truthy (destination options) then js_string (destination options) else ''/'', target])]"
  by (simp_all add: sendToS3_def Let_def split: put_outcome.splits)

lemma removeRF_removals:
  "removals (calls (snd (removeRF T t w))) = Suc (removals (calls w))"
  by (simp add: removals_def removeRF_obs Let_def)

lemma removeRF_invocations:
  "invocations (calls (snd (removeRF T t w))) = invocations (calls w)"
  by (simp add: invocations_def removeRF_obs Let_def)

section \<open>The series and the orchestrator, step by step\<close>

lemma series_step:
  "series (t # ts) w = (if fst (t w) = Reply None then series ts (snd (t w)) else t w)"
proof (cases "t w")
  case (Pair answer w')
  then show ?thesis
    by (cases answer) (auto split: option.splits)
qed

lemma series_append:
  "series (ts @ us) w =
     (if fst (series ts w) = Reply None then series us (snd (series ts w)) else series ts w)"
  by (induction ts arbitrary: w) (auto split: prod.splits option.splits reply.splits)

lemma sync_obs:
  "fst (sync T m s env w) = fst (series (sync_tasks T m s env) w)"
  "fs (snd (sync T m s env w)) = fs (snd (series (sync_tasks T m s env) w))"
  "calls (snd (sync T m s env w)) = calls (snd (series (sync_tasks T m s env) w))"
  by (simp_all add: sync_def split: prod.splits)

lemma sync_tasks_split:
  "sync_tasks T m s env =
     take 5 (sync_tasks T m s env)
       @ [removeRF T (sync_backupDir m env), removeRF T (sync_archivePath m env)]"
  by (simp add: sync_tasks_def)

lemma series_sync_tasks:
  "series (sync_tasks T m s env) w =
     (if fst (series (take 5 (sync_tasks T m s env)) w) = Reply None
      then series [removeRF T (sync_backupDir m env), removeRF T (sync_archivePath m env)]
             (snd (series (take 5 (sync_tasks T m s env)) w))
      else series (take 5 (sync_tasks T m s env)) w)"
  by (subst sync_tasks_split, subst series_append) simp

section \<open>Facts about the simulated machine\<close>

lemma sim_tools_sel:
  "fs_exists (sim_tools outcome) = sim_exists"
  "fs_stat (sim_tools outcome) = sim_stat"
  "exec (sim_tools outcome) = sim_exec"
  "spawn (sim_tools outcome) = sim_spawn"
  "putFile (sim_tools outcome) = sim_putFile outcome"
  by (simp_all add: sim_tools_def)

lemma sim_tools_rm_fails_sel:
  "fs_exists (sim_tools_rm_fails outcome) = sim_exists"
  "fs_stat (sim_tools_rm_fails outcome) = sim_stat"
  "exec (sim_tools_rm_fails outcome) =
     (\<lambda>cmd files. (Reply (Some (Error (''Command failed: '' @ cmd))), files))"
  "spawn (sim_tools_rm_fails outcome) = sim_spawn"
  "putFile (sim_tools_rm_fails outcome) = sim_putFile outcome"
  by (simp_all add: sim_tools_rm_fails_def sim_tools_def)

lemma sim_tools_exit_sel:
  "fs_exists (sim_tools_exit ended outcome) = sim_exists"
  "fs_stat (sim_tools_exit ended outcome) = sim_stat"
  "exec (sim_tools_exit ended outcome) = sim_exec"
  "spawn (sim_tools_exit ended outcome) = (\<lambda>prog args cwd files. ([], ended, files))"
  "putFile (sim_tools_exit ended outcome) = sim_putFile outcome"
  by (simp_all add: sim_tools_exit_def sim_tools_def)

lemmas sim_eval =
  sim_tools_sel sim_tools_rm_fails_sel sim_tools_exit_sel
  sim_exists_def sim_stat_def sim_exec_def sim_spawn_def sim_putFile_def
  sh_fields_def under_def

lemmas steps_eval =
  sync_tasks_def series_step removeRF_obs mongoDump_obs compressDirectory_obs sendToS3_obs sim_eval

lemma demo_fields [simp]:
  "db demo_mongodb = ''test''"
  "key demo_s3 = ''AKIA''"
  "secret demo_s3 = ''s3cr3t''"
  "bucket demo_s3 = ''backups''"
  "destination demo_s3 = None"
  "fs empty_world = []"
  "calls empty_world = []"
  "logged empty_world = []"
  by (simp_all add: demo_mongodb_def demo_s3_def empty_world_def)

lemma demo_paths1 [simp]:
  "sync_tmpDir demo_env1 = ''/tmp/mongodb_s3_backup''"
  "sync_backupDir demo_mongodb demo_env1 = ''/tmp/mongodb_s3_backup/test''"
  "sync_archiveName demo_mongodb demo_env1 = ''test_2026_11_3_1793700000000.tar.gz''"
  "sync_archivePath demo_mongodb demo_env1 = ''/tmp/mongodb_s3_backup/test_2026_11_3_1793700000000.tar.gz''"
  by (simp_all add: sync_tmpDir_def sync_backupDir_def sync_archiveName_def sync_archivePath_def
        getArchiveName_def demo_env1_def path_eval js_eval)

lemma demo_paths2 [simp]:
  "sync_tmpDir demo_env2 = ''/tmp/mongodb_s3_backup''"
  "sync_backupDir demo_mongodb demo_env2 = ''/tmp/mongodb_s3_backup/test''"
  "sync_archiveName demo_mongodb demo_env2 = ''test_2026_11_3_1793700060000.tar.gz''"
  "sync_archivePath demo_mongodb demo_env2 = ''/tmp/mongodb_s3_backup/test_2026_11_3_1793700060000.tar.gz''"
  by (simp_all add: sync_tmpDir_def sync_backupDir_def sync_archiveName_def sync_archivePath_def
        getArchiveName_def demo_env2_def path_eval js_eval)

lemma demo_path_joins [simp]:
  "path_join [''/tmp/mongodb_s3_backup'', ''test_2026_11_3_1793700000000.tar.gz'']
     = ''/tmp/mongodb_s3_backup/test_2026_11_3_1793700000000.tar.gz''"
  "path_join [''/'', ''test_2026_11_3_1793700000000.tar.gz''] = ''/test_2026_11_3_1793700000000.tar.gz''"
  "path_join [''/tmp/mongodb_s3_backup'', ''test''] = ''/tmp/mongodb_s3_backup/test''"
  "path_join [''/tmp/mongodb_s3_backup'', ''test'', ''test.bson''] = ''/tmp/mongodb_s3_backup/test/test.bson''"
  "path_join [''/tmp/mongodb_s3_backup'', ''a.tar.gz''] = ''/tmp/mongodb_s3_backup/a.tar.gz''"
  "path_join [''/'', ''a.tar.gz''] = ''/a.tar.gz''"
  by (simp_all add: path_eval)

lemma demo_mongoOptions [simp]:
  "mongoOptions demo_mongodb ''/tmp/mongodb_s3_backup''
     = [''-h'', ''localhost:27017'', ''-d'', ''test'', ''-o'', ''/tmp/mongodb_s3_backup'']"
  by (simp add: mongoOptions_def demo_mongodb_def js_eval)

text \<open>
  The first five steps of a run on the empty machine at the first clock reading: the dump
  and the archive are written, and the outcome is the upload's.
\<close>

lemma demo_first_five:
  assumes "fs_exists T = sim_exists" and "spawn T = sim_spawn"
  shows "fst (series (take 5 (sync_tasks T demo_mongodb demo_s3 demo_env1)) empty_world) =
      (case putFile T (KnoxClient ''AKIA'' ''s3cr3t'' ''backups'')
              ''/tmp/mongodb_s3_backup/test_2026_11_3_1793700000000.tar.gz''
              ''/test_2026_11_3_1793700000000.tar.gz''
              [(''/tmp/mongodb_s3_backup/test'', 4096),
               (''/tmp/mongodb_s3_backup/test/test.bson'', 2048),
               (''/tmp/mongodb_s3_backup/test_2026_11_3_1793700000000.tar.gz'', 1536)] of
         NoResponse \<Rightarrow> NoReply
       | TransportError err \<Rightarrow> Reply (Some err)
       | ResponseNoEnd statusCode chunks \<Rightarrow> NoReply
       | Response statusCode chunks \<Rightarrow>
           if statusCode \<noteq> 200
           then Reply (Some (Error (''Expected a 200 response from S3, got '' @ show_nat statusCode)))
           else Reply None)"
    and "fs (snd (series (take 5 (sync_tasks T demo_mongodb demo_s3 demo_env1)) empty_world)) =
      [(''/tmp/mongodb_s3_backup/test'', 4096),
       (''/tmp/mongodb_s3_backup/test/test.bson'', 2048),
       (''/tmp/mongodb_s3_backup/test_2026_11_3_1793700000000.tar.gz'', 1536)]"
    and "calls (snd (series (take 5 (sync_tasks T demo_mongodb demo_s3 demo_env1)) empty_world)) =
      [FsExists ''/tmp/mongodb_s3_backup/test'',
       FsExists ''/tmp/mongodb_s3_backup/test_2026_11_3_1793700000000.tar.gz'',
       Spawn ''mongodump'' [''-h'', ''localhost:27017'', ''-d'', ''test'', ''-o'', ''/tmp/mongodb_s3_backup''] None,
       Spawn ''tar'' [''-zcf'', ''test_2026_11_3_1793700000000.tar.gz'', ''test''] (Some ''/tmp/mongodb_s3_backup''),
       FsStat ''/tmp/mongodb_s3_backup/test_2026_11_3_1793700000000.tar.gz'',
       PutFile ''/tmp/mongodb_s3_backup/test_2026_11_3_1793700000000.tar.gz''
               ''/test_2026_11_3_1793700000000.tar.gz'']"
proof -
  have w4: "fst (series (take 4 (sync_tasks T demo_mongodb demo_s3 demo_env1)) empty_world) = Reply None"
    "fs (snd (series (take 4 (sync_tasks T demo_mongodb demo_s3 demo_env1)) empty_world)) =
      [(''/tmp/mongodb_s3_backup/test'', 4096),
       (''/tmp/mongodb_s3_backup/test/test.bson'', 2048),
       (''/tmp/mongodb_s3_backup/test_2026_11_3_1793700000000.tar.gz'', 1536)]"
    "calls (snd (series (take 4 (sync_tasks T demo_mongodb demo_s3 demo_env1)) empty_world)) =
      [FsExists ''/tmp/mongodb_s3_backup/test'',
       FsExists ''/tmp/mongodb_s3_backup/test_2026_11_3_1793700000000.tar.gz'',
       Spawn ''mongodump'' [''-h'', ''localhost:27017'', ''-d'', ''test'', ''-o'', ''/tmp/mongodb_s3_backup''] None,
       Spawn ''tar'' [''-zcf'', ''test_2026_11_3_1793700000000.tar.gz'', ''test''] (Some ''/tmp/mongodb_s3_backup''),
       FsStat ''/tmp/mongodb_s3_backup/test_2026_11_3_1793700000000.tar.gz'']"
    by (simp_all add: assms sync_tasks_def series_step removeRF_obs mongoDump_obs compressDirectory_obs
          sim_exists_def sim_spawn_def js_eval del: series.simps(2))
  have five: "take 5 (sync_tasks T demo_mongodb demo_s3 demo_env1) =
      take 4 (sync_tasks T demo_mongodb demo_s3 demo_env1)
        @ [sendToS3 T demo_s3 ''/tmp/mongodb_s3_backup'' ''test_2026_11_3_1793700000000.tar.gz'']"
    by (simp add: sync_tasks_def)
  show "fst (series (take 5 (sync_tasks T demo_mongodb demo_s3 demo_env1)) empty_world) =
      (case putFile T (KnoxClient ''AKIA'' ''s3cr3t'' ''backups'')
              ''/tmp/mongodb_s3_backup/test_2026_11_3_1793700000000.tar.gz''
              ''/test_2026_11_3_1793700000000.tar.gz''
              [(''/tmp/mongodb_s3_backup/test'', 4096),
               (''/tmp/mongodb_s3_backup/test/test.bson'', 2048),
               (''/tmp/mongodb_s3_backup/test_2026_11_3_1793700000000.tar.gz'', 1536)] of
         NoResponse \<Rightarrow> NoReply
       | TransportError err \<Rightarrow> Reply (Some err)
       | ResponseNoEnd statusCode chunks \<Rightarrow> NoReply
       | Response statusCode chunks \<Rightarrow>
           if statusCode \<noteq> 200
           then Reply (Some (Error (''Expected a 200 response from S3, got '' @ show_nat statusCode)))
           else Reply None)"
    by (subst five, subst series_append)
      (simp add: w4 series_step sendToS3_obs del: series.simps(2) split: put_outcome.splits)
  show "fs (snd (series (take 5 (sync_tasks T demo_mongodb demo_s3 demo_env1)) empty_world)) =
      [(''/tmp/mongodb_s3_backup/test'', 4096),
       (''/tmp/mongodb_s3_backup/test/test.bson'', 2048),
       (''/tmp/mongodb_s3_backup/test_2026_11_3_1793700000000.tar.gz'', 1536)]"
    by (subst five, subst series_append) (simp add: w4 series_step sendToS3_obs del: series.simps(2))
  show "calls (snd (series (take 5 (sync_tasks T demo_mongodb demo_s3 demo_env1)) empty_world)) =
      [FsExists ''/tmp/mongodb_s3_backup/test'',
       FsExists ''/tmp/mongodb_s3_backup/test_2026_11_3_1793700000000.tar.gz'',
       Spawn ''mongodump'' [''-h'', ''localhost:27017'', ''-d'', ''test'', ''-o'', ''/tmp/mongodb_s3_backup''] None,
       Spawn ''tar'' [''-zcf'', ''test_2026_11_3_1793700000000.tar.gz'', ''test''] (Some ''/tmp/mongodb_s3_backup''),
       FsStat ''/tmp/mongodb_s3_backup/test_2026_11_3_1793700000000.tar.gz'',
       PutFile ''/tmp/mongodb_s3_backup/test_2026_11_3_1793700000000.tar.gz''
               ''/test_2026_11_3_1793700000000.tar.gz'']"
    by (subst five, subst series_append) (simp add: w4 series_step sendToS3_obs del: series.simps(2))
qed

lemmas demo_first_five_sim =
  demo_first_five [of "sim_tools outcome", OF sim_tools_sel(1) sim_tools_sel(4)]
  demo_first_five [of "sim_tools_rm_fails outcome", OF sim_tools_rm_fails_sel(1) sim_tools_rm_fails_sel(4)]
  for outcome

section \<open>The dump invoker\<close>

text \<open>
  C7. The argument vector handed to \<open>mongodump\<close> is the six connection arguments,
  followed by \<open>-u username -p password\<close> exactly when both the username and the password
  are set (truthy: present and not the empty string), and by nothing otherwise; a
  username alone, or a password alone, adds no flag. This vector is what \<open>spawn\<close>
  receives.
\<close>

theorem mongoDump_credential_flags:
  "mongoOptions options directory =
     [''-h'', host options @ '':'' @ show_nat (port options), ''-d'', db options, ''-o'', directory]
     @ (if js_truthy (username options) \<and> js_truthy (password options)
        then [''-u'', js_string (username options), ''-p'', js_string (password options)]
        else [])
   \<and> calls (snd (mongoDump T options directory w)) =
       calls w @ [Spawn ''mongodump'' (mongoOptions options directory) None]"
  by (simp add: mongoOptions_def mongoDump_obs Let_def)

theorem mongoDump_credential_flags_witness:
  "mongoOptions \<lparr>host = ''db1'', port = 27017, db = ''shop'', username = Some ''admin'', password = None\<rparr> ''/tmp/out''
     = [''-h'', ''db1:27017'', ''-d'', ''shop'', ''-o'', ''/tmp/out'']
   \<and> mongoOptions \<lparr>host = ''db1'', port = 27017, db = ''shop'', username = None, password = Some ''pw''\<rparr> ''/tmp/out''
     = [''-h'', ''db1:27017'', ''-d'', ''shop'', ''-o'', ''/tmp/out'']
   \<and> mongoOptions \<lparr>host = ''db1'', port = 27017, db = ''shop'', username = Some ''admin'', password = Some ''pw''\<rparr> ''/tmp/out''
     = [''-h'', ''db1:27017'', ''-d'', ''shop'', ''-o'', ''/tmp/out'', ''-u'', ''admin'', ''-p'', ''pw'']"
  using
    mongoDump_credential_flags [of "\<lparr>host = ''db1'', port = 27017, db = ''shop'', username = Some ''admin'', password = None\<rparr>" "''/tmp/out''" "sim_tools (Response 200 [])" empty_world]
    mongoDump_credential_flags [of "\<lparr>host = ''db1'', port = 27017, db = ''shop'', username = None, password = Some ''pw''\<rparr>" "''/tmp/out''" "sim_tools (Response 200 [])" empty_world]
    mongoDump_credential_flags [of "\<lparr>host = ''db1'', port = 27017, db = ''shop'', username = Some ''admin'', password = Some ''pw''\<rparr>" "''/tmp/out''" "sim_tools (Response 200 [])" empty_world]
  by (simp add: js_eval)

section \<open>The uploader\<close>



section \<open>The archiver\<close>

text \<open>
  C9. When \<open>tar\<close> exits with code 0 the compression step succeeds, leaves the file
  system as \<open>tar\<close> left it and makes the same calls, whatever \<open>fs.stat\<close> answers; when
  stat fails the size is taken as 0 and the log line reads \<open>0 B\<close>. An exit with any other
  code (or none) gives the error that carries the code. When \<open>tar\<close> emits no \<open>exit\<close>
  event, the step never calls back.
\<close>

theorem compressDirectory_outcome:
  "(case spawn T ''tar'' [''-zcf'', output, input] (Some directory) (fs w) of
      (events, ended, fs') \<Rightarrow>
        (let r = compressDirectory T directory input output w
         in (ended = Reply (Some 0) \<longrightarrow>
               fst r = Reply None \<and> fs (snd r) = fs'
               \<and> calls (snd r) = calls w @ [Spawn ''tar'' [''-zcf'', output, input] (Some directory),
                                              FsStat (path_join [directory, output])])
            \<and> (ended = Reply (Some 0) \<and> fs_stat T fs' (path_join [directory, output]) = None \<longrightarrow>
                 last (logged (snd r)) = (Info, ''Successfully compressed directory (0 B)''))
            \<and> (\<forall>code. ended = Reply code \<and> code \<noteq> Some 0 \<longrightarrow>
                 fst r = Reply (Some (Error (''Tar exited with code '' @ show_code code))))
            \<and> (ended = NoReply \<longrightarrow> fst r = NoReply)))"
  by (auto simp: compressDirectory_def Let_def friendlyFilesize_def split: prod.splits)

theorem compressDirectory_outcome_witness:
  "fst (compressDirectory (sim_tools_exit (Reply (Some 0)) (Response 200 [])) ''/tmp/mongodb_s3_backup'' ''test''
          ''a.tar.gz'' empty_world) = Reply None
   \<and> last (logged (snd (compressDirectory (sim_tools_exit (Reply (Some 0)) (Response 200 []))
          ''/tmp/mongodb_s3_backup'' ''test'' ''a.tar.gz'' empty_world)))
       = (Info, ''Successfully compressed directory (0 B)'')
   \<and> fst (compressDirectory (sim_tools_exit (Reply (Some 2)) (Response 200 [])) ''/tmp/mongodb_s3_backup'' ''test''
          ''a.tar.gz'' empty_world) = Reply (Some (Error ''Tar exited with code 2''))
   \<and> fst (compressDirectory (sim_tools_exit (Reply None) (Response 200 [])) ''/tmp/mongodb_s3_backup'' ''test''
          ''a.tar.gz'' empty_world) = Reply (Some (Error ''Tar exited with code null''))
   \<and> fst (compressDirectory (sim_tools_exit NoReply (Response 200 [])) ''/tmp/mongodb_s3_backup'' ''test''
          ''a.tar.gz'' empty_world) = NoReply"
  using
    compressDirectory_outcome [of "sim_tools_exit (Reply (Some 0)) (Response 200 [])" "''/tmp/mongodb_s3_backup''"
      "''test''" "''a.tar.gz''" empty_world]
    compressDirectory_outcome [of "sim_tools_exit (Reply (Some 2)) (Response 200 [])" "''/tmp/mongodb_s3_backup''"
      "''test''" "''a.tar.gz''" empty_world]
    compressDirectory_outcome [of "sim_tools_exit (Reply None) (Response 200 [])" "''/tmp/mongodb_s3_backup''"
      "''test''" "''a.tar.gz''" empty_world]
    compressDirectory_outcome [of "sim_tools_exit NoReply (Response 200 [])" "''/tmp/mongodb_s3_backup''"
      "''test''" "''a.tar.gz''" empty_world]
  by (simp add: sim_eval js_eval)

section \<open>The cleaner\<close>

text \<open>
  C10. The claim says that \<open>removeRF\<close> hands its target to the deletion as one literal
  argument. The script appends the target, unquoted, to the command line \<open>rm -rf\<close> that
  \<open>exec\<close> gives to a shell. With a temporary directory whose name has a blank in it, the
  shell sees two paths: the target and what is below it stay, and another entry of the
  file system is deleted.
\<close>

theorem removeRF_target_with_blank:
  "removeRF (sim_tools (Response 200 [])) ''/home/joe/my tmp/mongodb_s3_backup/test''
     \<lparr>fs = [(''/home/joe/my tmp/mongodb_s3_backup/test'', 4096),
            (''/home/joe/my tmp/mongodb_s3_backup/test/test.bson'', 2048),
            (''/home/joe/my'', 7)],
      calls = [], logged = []\<rparr>
   = (Reply None,
      \<lparr>fs = [(''/home/joe/my tmp/mongodb_s3_backup/test'', 4096),
             (''/home/joe/my tmp/mongodb_s3_backup/test/test.bson'', 2048)],
       calls = [FsExists ''/home/joe/my tmp/mongodb_s3_backup/test'',
                Exec ''rm -rf /home/joe/my tmp/mongodb_s3_backup/test''],
       logged = [(Warn, ''Removing /home/joe/my tmp/mongodb_s3_backup/test'')]\<rparr>)
   \<and> sh_fields ''rm -rf /home/joe/my tmp/mongodb_s3_backup/test''
       = [''rm'', ''-rf'', ''/home/joe/my'', ''tmp/mongodb_s3_backup/test'']
   \<and> sync_backupDir demo_mongodb (demo_env1\<lparr>os_tmpDir := ''/home/joe/my tmp''\<rparr>)
       = ''/home/joe/my tmp/mongodb_s3_backup/test''"
  by (simp add: removeRF_def winston_def called_def sim_eval sync_backupDir_def sync_tmpDir_def
        demo_env1_def path_eval)

section \<open>The orchestrator\<close>

text \<open>
  C2, as the claim states it, fails: a run need not produce a terminal callback. The
  steps that start a child process listen for its \<open>exit\<close> event only. On a machine where
  \<open>mongodump\<close> never emits it (it cannot be started, or it never ends), the run stops in
  the dump step: nothing is started after \<open>mongodump\<close>, the final handler logs nothing,
  and the caller's callback is never called.
\<close>

theorem sync_no_terminal_callback_counterexample:
  "sync (sim_tools_exit NoReply (Response 200 [])) demo_mongodb demo_s3 demo_env1 empty_world
     = (NoReply,
        \<lparr>fs = [],
         calls = [FsExists ''/tmp/mongodb_s3_backup/test'',
                  FsExists ''/tmp/mongodb_s3_backup/test_2026_11_3_1793700000000.tar.gz'',
                  Spawn ''mongodump'' [''-h'', ''localhost:27017'', ''-d'', ''test'', ''-o'', ''/tmp/mongodb_s3_backup''] None],
         logged = [(Info, ''Starting mongodump of test'')]\<rparr>)
   \<and> terminal_callbacks
        (fst (sync (sim_tools_exit NoReply (Response 200 [])) demo_mongodb demo_s3 demo_env1 empty_world)) = []"
proof -
  have run: "sync (sim_tools_exit NoReply (Response 200 [])) demo_mongodb demo_s3 demo_env1 empty_world
     = (NoReply,
        \<lparr>fs = [],
         calls = [FsExists ''/tmp/mongodb_s3_backup/test'',
                  FsExists ''/tmp/mongodb_s3_backup/test_2026_11_3_1793700000000.tar.gz'',
                  Spawn ''mongodump'' [''-h'', ''localhost:27017'', ''-d'', ''test'', ''-o'', ''/tmp/mongodb_s3_backup''] None],
         logged = [(Info, ''Starting mongodump of test'')]\<rparr>)"
    by (simp add: sync_def sync_finish_def sync_tasks_def removeRF_def mongoDump_def winston_def
          called_def sim_eval empty_world_def)
  show ?thesis
    by (simp add: run)
qed

text \<open>
  C2, amended. Let \<open>(r1, w1)\<close>, ..., \<open>(r7, w7)\<close> be what the seven steps return when
  each is started in the world the one before it left. Then the run ends in the world
  of the first step that does not succeed, that is, that fails or never calls back (or
  after the last step when all succeed), and what becomes of the caller's callback is
  what became of that step's: no later step is started. When every step calls back,
  exactly one terminal callback is made, with the error of the first failing step, or
  with \<open>null\<close>. In particular, when the two removals before the dump succeed and
  \<open>mongodump\<close> does not exit with 0, the only process the run has started is
  \<open>mongodump\<close>: neither \<open>tar\<close> nor the upload is invoked.
\<close>

theorem sync_first_failure_aborts:
  assumes "removeRF T (sync_backupDir m env) w = (r1, w1)"
    and "removeRF T (sync_archivePath m env) w1 = (r2, w2)"
    and "mongoDump T m (sync_tmpDir env) w2 = (r3, w3)"
    and "compressDirectory T (sync_tmpDir env) (db m) (sync_archiveName m env) w3 = (r4, w4)"
    and "sendToS3 T s (sync_tmpDir env) (sync_archiveName m env) w4 = (r5, w5)"
    and "removeRF T (sync_backupDir m env) w5 = (r6, w6)"
    and "removeRF T (sync_archivePath m env) w6 = (r7, w7)"
  shows "sync T m s env w =
      (if r1 \<noteq> Reply None then sync_finish m r1 w1
       else if r2 \<noteq> Reply None then sync_finish m r2 w2
       else if r3 \<noteq> Reply None then sync_finish m r3 w3
       else if r4 \<noteq> Reply None then sync_finish m r4 w4
       else if r5 \<noteq> Reply None then sync_finish m r5 w5
       else if r6 \<noteq> Reply None then sync_finish m r6 w6
       else sync_finish m r7 w7)
    \<and> fst (sync T m s env w) =
      (if r1 \<noteq> Reply None then r1 else if r2 \<noteq> Reply None then r2 else if r3 \<noteq> Reply None then r3
       else if r4 \<noteq> Reply None then r4 else if r5 \<noteq> Reply None then r5
       else if r6 \<noteq> Reply None then r6 else r7)
    \<and> (r1 \<noteq> NoReply \<and> r2 \<noteq> NoReply \<and> r3 \<noteq> NoReply \<and> r4 \<noteq> NoReply \<and> r5 \<noteq> NoReply
         \<and> r6 \<noteq> NoReply \<and> r7 \<noteq> NoReply \<longrightarrow>
        (\<exists>err. terminal_callbacks (fst (sync T m s env w)) = [err]
           \<and> Reply err =
             (if r1 \<noteq> Reply None then r1 else if r2 \<noteq> Reply None then r2 else if r3 \<noteq> Reply None then r3
              else if r4 \<noteq> Reply None then r4 else if r5 \<noteq> Reply None then r5
              else if r6 \<noteq> Reply None then r6 else r7)))
    \<and> ((terminal_callbacks (fst (sync T m s env w)) = []) =
          ((if r1 \<noteq> Reply None then r1 else if r2 \<noteq> Reply None then r2 else if r3 \<noteq> Reply None then r3
            else if r4 \<noteq> Reply None then r4 else if r5 \<noteq> Reply None then r5
            else if r6 \<noteq> Reply None then r6 else r7) = NoReply))
    \<and> (r1 = Reply None \<and> r2 = Reply None
         \<and> fst (snd (spawn T ''mongodump'' (mongoOptions m (sync_tmpDir env)) None (fs w2))) \<noteq> Reply (Some 0) \<longrightarrow>
        r3 \<noteq> Reply None
        \<and> invocations (calls (snd (sync T m s env w))) =
            invocations (calls w) @ [Spawn ''mongodump'' (mongoOptions m (sync_tmpDir env)) None])"
proof -
  let ?decisive =
     "if r1 \<noteq> Reply None then r1 else if r2 \<noteq> Reply None then r2 else if r3 \<noteq> Reply None then r3
       else if r4 \<noteq> Reply None then r4 else if r5 \<noteq> Reply None then r5
       else if r6 \<noteq> Reply None then r6 else r7"
  have ser: "series (sync_tasks T m s env) w =
      (if r1 \<noteq> Reply None then (r1, w1)
       else if r2 \<noteq> Reply None then (r2, w2)
       else if r3 \<noteq> Reply None then (r3, w3)
       else if r4 \<noteq> Reply None then (r4, w4)
       else if r5 \<noteq> Reply None then (r5, w5)
       else if r6 \<noteq> Reply None then (r6, w6)
       else (r7, w7))"
    using assms by (simp add: sync_tasks_def series_step del: series.simps(2))
  have run: "sync T m s env w =
      (if r1 \<noteq> Reply None then sync_finish m r1 w1
       else if r2 \<noteq> Reply None then sync_finish m r2 w2
       else if r3 \<noteq> Reply None then sync_finish m r3 w3
       else if r4 \<noteq> Reply None then sync_finish m r4 w4
       else if r5 \<noteq> Reply None then sync_finish m r5 w5
       else if r6 \<noteq> Reply None then sync_finish m r6 w6
       else sync_finish m r7 w7)"
    by (simp add: sync_def ser)
  have cb: "fst (sync T m s env w) = ?decisive"
    unfolding run by simp
  have one: "\<exists>err. terminal_callbacks (fst (sync T m s env w)) = [err] \<and> Reply err = ?decisive"
    if "r1 \<noteq> NoReply \<and> r2 \<noteq> NoReply \<and> r3 \<noteq> NoReply \<and> r4 \<noteq> NoReply \<and> r5 \<noteq> NoReply
         \<and> r6 \<noteq> NoReply \<and> r7 \<noteq> NoReply"
  proof -
    from that have "?decisive \<noteq> NoReply"
      by simp
    then obtain err where "?decisive = Reply err"
      by (cases ?decisive) auto
    then show ?thesis
      unfolding cb by simp
  qed
  have none: "(terminal_callbacks (fst (sync T m s env w)) = []) = (?decisive = NoReply)"
    unfolding cb by (cases ?decisive) simp_all
  have dump: "invocations (calls (snd (sync T m s env w))) =
            invocations (calls w) @ [Spawn ''mongodump'' (mongoOptions m (sync_tmpDir env)) None]"
    and r3: "r3 \<noteq> Reply None"
    if "r1 = Reply None" "r2 = Reply None"
      "fst (snd (spawn T ''mongodump'' (mongoOptions m (sync_tmpDir env)) None (fs w2))) \<noteq> Reply (Some 0)"
  proof -
    from that(3) assms(3) show "r3 \<noteq> Reply None"
      using mongoDump_obs(1) [of T m "sync_tmpDir env" w2] by (auto split: reply.splits if_splits)
    then have "snd (sync T m s env w) = snd (sync_finish m r3 w3)"
      unfolding run using that by simp
    moreover have "calls w3 = calls w2 @ [Spawn ''mongodump'' (mongoOptions m (sync_tmpDir env)) None]"
      using mongoDump_obs(3) [of T m "sync_tmpDir env" w2] assms(3) by simp
    moreover have "invocations (calls w2) = invocations (calls w1)"
      using removeRF_invocations [of T "sync_archivePath m env" w1] assms(2) by simp
    moreover have "invocations (calls w1) = invocations (calls w)"
      using removeRF_invocations [of T "sync_backupDir m env" w] assms(1) by simp
    ultimately show "invocations (calls (snd (sync T m s env w))) =
            invocations (calls w) @ [Spawn ''mongodump'' (mongoOptions m (sync_tmpDir env)) None]"
      by (simp add: invocations_def)
  qed
  from run cb one none dump r3 show ?thesis by blast
qed

theorem sync_first_failure_aborts_witness:
  "terminal_callbacks
     (fst (sync (sim_tools_exit (Reply (Some 1)) (Response 200 [])) demo_mongodb demo_s3 demo_env1 empty_world))
     = [Some (Error ''Mongodump exited with code 1'')]
   \<and> invocations (calls (snd (sync (sim_tools_exit (Reply (Some 1)) (Response 200 [])) demo_mongodb demo_s3
        demo_env1 empty_world)))
     = [Spawn ''mongodump'' [''-h'', ''localhost:27017'', ''-d'', ''test'', ''-o'', ''/tmp/mongodb_s3_backup''] None]"
  using sync_first_failure_aborts
    [where T = "sim_tools_exit (Reply (Some 1)) (Response 200 [])" and m = demo_mongodb and s = demo_s3
       and env = demo_env1 and w = empty_world,
     OF surjective_pairing surjective_pairing surjective_pairing surjective_pairing
        surjective_pairing surjective_pairing surjective_pairing]
  by (simp add: removeRF_obs mongoDump_obs compressDirectory_obs sendToS3_obs sim_eval js_eval
        invocations_def)

text \<open>
  C1, as the claim states it, fails: the second removal after the upload runs only when
  the first one reports no error. On a machine where \<open>rm\<close> fails, the upload succeeds, the
  removal of the dump directory is tried and fails, and the archive is never looked at.
\<close>

theorem sync_post_clean_counterexample:
  "fst (series (take 5 (sync_tasks (sim_tools_rm_fails (Response 200 [''ok''])) demo_mongodb demo_s3 demo_env1))
         empty_world) = Reply None
   \<and> fst (sync (sim_tools_rm_fails (Response 200 [''ok''])) demo_mongodb demo_s3 demo_env1 empty_world)
       = Reply (Some (Error ''Command failed: rm -rf /tmp/mongodb_s3_backup/test''))
   \<and> calls (snd (sync (sim_tools_rm_fails (Response 200 [''ok''])) demo_mongodb demo_s3 demo_env1 empty_world))
       = [FsExists ''/tmp/mongodb_s3_backup/test'',
          FsExists ''/tmp/mongodb_s3_backup/test_2026_11_3_1793700000000.tar.gz'',
          Spawn ''mongodump'' [''-h'', ''localhost:27017'', ''-d'', ''test'', ''-o'', ''/tmp/mongodb_s3_backup''] None,
          Spawn ''tar'' [''-zcf'', ''test_2026_11_3_1793700000000.tar.gz'', ''test''] (Some ''/tmp/mongodb_s3_backup''),
          FsStat ''/tmp/mongodb_s3_backup/test_2026_11_3_1793700000000.tar.gz'',
          PutFile ''/tmp/mongodb_s3_backup/test_2026_11_3_1793700000000.tar.gz''
                  ''/test_2026_11_3_1793700000000.tar.gz'',
          FsExists ''/tmp/mongodb_s3_backup/test'',
          Exec ''rm -rf /tmp/mongodb_s3_backup/test'']"
  by (simp add: sync_obs series_sync_tasks demo_first_five_sim series_step removeRF_obs sim_eval
        del: series.simps(2))

text \<open>
  C1, amended. Let \<open>(r, w5)\<close> be the outcome of the first five steps (the two
  removals, the dump, the compression and the upload), and \<open>(r6, w6)\<close>, \<open>(r7, w7)\<close>
  what the two removals after them return. When one of the first five steps does not
  succeed, no removal runs after it: the run ends in \<open>w5\<close>, with the file system and the
  calls of that step. When the upload succeeds, the removal of the dump directory runs;
  the removal of the archive runs exactly when that first removal reports no error.
\<close>

theorem sync_post_clean_gated:
  assumes "series (take 5 (sync_tasks T m s env)) w = (r, w5)"
    and "removeRF T (sync_backupDir m env) w5 = (r6, w6)"
    and "removeRF T (sync_archivePath m env) w6 = (r7, w7)"
  shows "(r \<noteq> Reply None \<longrightarrow>
            sync T m s env w = sync_finish m r w5
            \<and> fs (snd (sync T m s env w)) = fs w5
            \<and> calls (snd (sync T m s env w)) = calls w5)
    \<and> (r = Reply None \<and> r6 \<noteq> Reply None \<longrightarrow>
            sync T m s env w = sync_finish m r6 w6
            \<and> removals (calls (snd (sync T m s env w))) = removals (calls w5) + 1)
    \<and> (r = Reply None \<and> r6 = Reply None \<longrightarrow>
            sync T m s env w = sync_finish m r7 w7
            \<and> removals (calls (snd (sync T m s env w))) = removals (calls w5) + 2)"
proof -
  have run: "series (sync_tasks T m s env) w =
      (if r \<noteq> Reply None then (r, w5) else if r6 \<noteq> Reply None then (r6, w6) else (r7, w7))"
    using assms by (subst series_sync_tasks) (simp add: series_step del: series.simps(2))
  have r6: "removals (calls w6) = removals (calls w5) + 1"
    using removeRF_removals [of T "sync_backupDir m env" w5] assms(2) by simp
  have r7: "removals (calls w7) = removals (calls w6) + 1"
    using removeRF_removals [of T "sync_archivePath m env" w6] assms(3) by simp
  show ?thesis
    using r6 r7 by (simp add: sync_def run)
qed

theorem sync_post_clean_gated_witness:
  "fst (sync (sim_tools (Response 500 [''denied''])) demo_mongodb demo_s3 demo_env1 empty_world)
     = Reply (Some (Error ''Expected a 200 response from S3, got 500''))
   \<and> fs (snd (sync (sim_tools (Response 500 [''denied''])) demo_mongodb demo_s3 demo_env1 empty_world))
     = [(''/tmp/mongodb_s3_backup/test'', 4096),
        (''/tmp/mongodb_s3_backup/test/test.bson'', 2048),
        (''/tmp/mongodb_s3_backup/test_2026_11_3_1793700000000.tar.gz'', 1536)]
   \<and> removals (calls (snd (sync (sim_tools (Response 500 [''denied''])) demo_mongodb demo_s3 demo_env1 empty_world))) = 2
   \<and> removals (calls (snd (sync (sim_tools (Response 200 [''ok''])) demo_mongodb demo_s3 demo_env1 empty_world))) = 4
   \<and> removals (calls (snd (sync (sim_tools_rm_fails (Response 200 [''ok''])) demo_mongodb demo_s3 demo_env1 empty_world))) = 3"
  using
    sync_post_clean_gated
      [where T = "sim_tools (Response 500 [''denied''])" and m = demo_mongodb and s = demo_s3
         and env = demo_env1 and w = empty_world,
       OF surjective_pairing surjective_pairing surjective_pairing]
    sync_post_clean_gated
      [where T = "sim_tools (Response 200 [''ok''])" and m = demo_mongodb and s = demo_s3
         and env = demo_env1 and w = empty_world,
       OF surjective_pairing surjective_pairing surjective_pairing]
    sync_post_clean_gated
      [where T = "sim_tools_rm_fails (Response 200 [''ok''])" and m = demo_mongodb and s = demo_s3
         and env = demo_env1 and w = empty_world,
       OF surjective_pairing surjective_pairing surjective_pairing]
  by (simp add: demo_first_five_sim removeRF_obs sim_eval js_eval removals_def)

text \<open>A run whose upload is answered with 500, at the first clock reading.\<close>

lemma demo_failed_upload:
  "fst (sync (sim_tools (Response 500 [''denied''])) demo_mongodb demo_s3 demo_env1 empty_world)
     = Reply (Some (Error ''Expected a 200 response from S3, got 500''))"
  "fs (snd (sync (sim_tools (Response 500 [''denied''])) demo_mongodb demo_s3 demo_env1 empty_world))
     = [(''/tmp/mongodb_s3_backup/test'', 4096),
        (''/tmp/mongodb_s3_backup/test/test.bson'', 2048),
        (''/tmp/mongodb_s3_backup/test_2026_11_3_1793700000000.tar.gz'', 1536)]"
  by (simp_all add: sync_obs series_sync_tasks demo_first_five_sim sim_eval js_eval del: series.simps(2))

text \<open>
  C3. The claim says that the next run removes both artifacts a failed run left behind.
  The archive name contains \<open>getTime()\<close>, so the next run computes another name: after
  its two removals the dump directory of the failed run is gone, and the archive of the
  failed run is still there.
\<close>

theorem stale_archive_survives_next_run:
  "fs (snd (sync (sim_tools (Response 500 [''denied''])) demo_mongodb demo_s3 demo_env1 empty_world))
     = [(''/tmp/mongodb_s3_backup/test'', 4096),
        (''/tmp/mongodb_s3_backup/test/test.bson'', 2048),
        (''/tmp/mongodb_s3_backup/test_2026_11_3_1793700000000.tar.gz'', 1536)]
   \<and> sync_archivePath demo_mongodb demo_env2 = ''/tmp/mongodb_s3_backup/test_2026_11_3_1793700060000.tar.gz''
   \<and> fst (series (take 2 (sync_tasks (sim_tools (Response 200 [''ok''])) demo_mongodb demo_s3 demo_env2))
              (snd (sync (sim_tools (Response 500 [''denied''])) demo_mongodb demo_s3 demo_env1 empty_world)))
     = Reply None
   \<and> fs (snd (series (take 2 (sync_tasks (sim_tools (Response 200 [''ok''])) demo_mongodb demo_s3 demo_env2))
              (snd (sync (sim_tools (Response 500 [''denied''])) demo_mongodb demo_s3 demo_env1 empty_world))))
     = [(''/tmp/mongodb_s3_backup/test_2026_11_3_1793700000000.tar.gz'', 1536)]"
  by (simp add: demo_failed_upload sync_tasks_def series_step removeRF_obs sim_eval
        del: series.simps(2))

end
